theory Spec2Isabelle
  imports Main
begin

section \<open>Values and failures\<close>

text \<open>
  The provider's client library and the configuration parser hand back nested Python
  values: dictionaries with string keys, lists, strings, integers, booleans and
  \<^verbatim>\<open>None\<close>. A dictionary is an association list in insertion order; a lookup takes the
  first binding of a key.
\<close>

datatype json =
    JNull
  | JBool bool
  | JInt int
  | JStr string
  | JList "json list"
  | JDict "(string \<times> json) list"

text \<open>
  Every exception the scripts can raise is a value. \<open>KeyError\<close> carries the missing key.
  \<open>ProviderError\<close> stands for whatever the remote call raises, \<open>ExcelError\<close> for
  whatever the spreadsheet library raises.
\<close>

datatype error =
    KeyError string
  | TypeError
  | IndexError
  | FileNotFoundError
  | YAMLError
  | ProviderError string
  | ExcelError string

text \<open>Sequencing of fallible steps: the first failure ends the computation.\<close>

definition bindE :: "error + 'a \<Rightarrow> ('a \<Rightarrow> error + 'b) \<Rightarrow> error + 'b" where
  "bindE m f = (case m of Inl e \<Rightarrow> Inl e | Inr x \<Rightarrow> f x)"

text \<open>\<^verbatim>\<open>x[k]\<close> with a string key: only a dictionary accepts it.\<close>

fun getitem :: "json \<Rightarrow> string \<Rightarrow> error + json" where
  "getitem (JDict kvs) k = (case map_of kvs k of None \<Rightarrow> Inl (KeyError k) | Some v \<Rightarrow> Inr v)"
| "getitem JNull k = Inl TypeError"
| "getitem (JBool b) k = Inl TypeError"
| "getitem (JInt n) k = Inl TypeError"
| "getitem (JStr s) k = Inl TypeError"
| "getitem (JList xs) k = Inl TypeError"

text \<open>
  \<^verbatim>\<open>for x in v\<close>: a list yields its elements, a dictionary its keys, a string its
  characters; nothing else is iterable.
\<close>

fun iter :: "json \<Rightarrow> error + json list" where
  "iter (JList xs) = Inr xs"
| "iter (JDict kvs) = Inr (map (\<lambda>kv. JStr (fst kv)) kvs)"
| "iter (JStr s) = Inr (map (\<lambda>c. JStr [c]) s)"
| "iter JNull = Inl TypeError"
| "iter (JBool b) = Inl TypeError"
| "iter (JInt n) = Inl TypeError"

text \<open>
  A loop that appends one record per item, or a list comprehension: items are handled in
  order and the first failing item ends the loop with its exception.
\<close>

type_synonym row = "(string \<times> json) list"

fun for_append :: "(json \<Rightarrow> error + row) \<Rightarrow> json list \<Rightarrow> row list \<Rightarrow> error + row list" where
  "for_append f [] acc = Inr acc"
| "for_append f (x # xs) acc = bindE (f x) (\<lambda>r. for_append f xs (acc @ [r]))"

section \<open>Tables\<close>

text \<open>
  A \<^verbatim>\<open>pandas.DataFrame\<close> with the default row index \<open>0, 1, \<dots>\<close>: the column labels and the
  rows, each row holding one cell per column. A cell is \<open>None\<close> where the frame has no
  value (NaN).
\<close>

type_synonym cell = "json option"

record table =
  columns :: "string list"
  rows :: "cell list list"

text \<open>Union of two label sequences: the labels of the first, then the new ones, in order.\<close>

definition index_union :: "string list \<Rightarrow> string list \<Rightarrow> string list" where
  "index_union cols ks = fold (\<lambda>k seen. if k \<in> set seen then seen else seen @ [k]) ks cols"

text \<open>
  \<^verbatim>\<open>pd.DataFrame(records)\<close> on a list of dictionaries: the columns are the keys in order
  of first appearance over all records, and a record without a key leaves the cell empty.
  On the empty list the frame has no column and no row. \<^verbatim>\<open>pd.DataFrame()\<close> is the same
  empty frame.
\<close>

definition DataFrame :: "row list \<Rightarrow> table" where
  "DataFrame records =
     (let cols = fold (\<lambda>r seen. index_union seen (map fst r)) records []
      in \<lparr>columns = cols, rows = map (\<lambda>r. map (map_of r) cols) records\<rparr>)"

definition empty_frame :: table where
  "empty_frame = \<lparr>columns = [], rows = []\<rparr>"

text \<open>The cell of row \<open>i\<close> under the label \<open>c\<close>, when the frame has both.\<close>

definition cell_at :: "table \<Rightarrow> nat \<Rightarrow> string \<Rightarrow> cell option" where
  "cell_at t i c =
     (if i < length (rows t) then map_of (zip (columns t) (rows t ! i)) c else None)"

text \<open>A row laid out again under new labels; a label the row did not have gives an empty cell.\<close>

definition reindex :: "string list \<Rightarrow> string list \<Rightarrow> cell list \<Rightarrow> cell list" where
  "reindex old new r =
     map (\<lambda>c. case map_of (zip old r) c of None \<Rightarrow> None | Some v \<Rightarrow> v) new"

text \<open>
  \<^verbatim>\<open>pd.concat([a, b], ignore_index=True)\<close>: the rows of \<open>a\<close>, then the rows of \<open>b\<close>, under
  the union of the two column sequences, renumbered from zero.
\<close>

definition concat_frames :: "table \<Rightarrow> table \<Rightarrow> table" where
  "concat_frames a b =
     (let cols = index_union (columns a) (columns b)
      in \<lparr>columns = cols,
          rows = map (reindex (columns a) cols) (rows a) @ map (reindex (columns b) cols) (rows b)\<rparr>)"

section \<open>The inventory collector\<close>

record AWSInventory =
  aws_access_key_id :: json
  aws_secret_access_key :: json

text \<open>A client session, and one call made through it with its keyword arguments.\<close>

record client =
  service_name :: string
  region_name :: string
  client_key_id :: json
  client_secret :: json

record request =
  via :: client
  operation :: string
  kwargs :: "(string \<times> json) list"

type_synonym provider = "request \<Rightarrow> error + json"

definition get_boto_client :: "AWSInventory \<Rightarrow> string \<Rightarrow> string \<Rightarrow> client" where
  "get_boto_client self service region =
     \<lparr>service_name = service, region_name = region,
      client_key_id = aws_access_key_id self, client_secret = aws_secret_access_key self\<rparr>"

text \<open>A call goes to the provider and is appended to the log of calls issued.\<close>

definition invoke :: "provider \<Rightarrow> request \<Rightarrow> request list \<Rightarrow> (error + json) \<times> request list" where
  "invoke p r log = (p r, log @ [r])"

subsection \<open>Compute instances\<close>

text \<open>
  \<^verbatim>\<open>next((tag['Value'] for tag in tags if tag['Key'] == 'Name'), '')\<close> over the tags
  already taken from the iterable.
\<close>

fun first_name_tag :: "json list \<Rightarrow> error + json" where
  "first_name_tag [] = Inr (JStr [])"
| "first_name_tag (tag # tags) =
     bindE (getitem tag ''Key'')
       (\<lambda>k. if k = JStr ''Name'' then getitem tag ''Value'' else first_name_tag tags)"

definition instance_name :: "json \<Rightarrow> error + json" where
  "instance_name inst =
     bindE (getitem inst ''Tags'') (\<lambda>tags. bindE (iter tags) first_name_tag)"

text \<open>The dictionary display of one instance: its entries are evaluated top to bottom.\<close>

definition instance_record :: "string \<Rightarrow> json \<Rightarrow> error + row" where
  "instance_record aws_region inst =
     bindE (instance_name inst) (\<lambda>name.
     bindE (getitem inst ''InstanceId'') (\<lambda>iid.
     bindE (getitem inst ''InstanceType'') (\<lambda>ty.
     bindE (getitem inst ''PlatformDetails'') (\<lambda>os.
     bindE (getitem inst ''State'') (\<lambda>st.
     bindE (getitem st ''Name'') (\<lambda>state.
       Inr [(''Name'', name), (''Instance ID'', iid), (''Type'', ty), (''OS'', os),
            (''Region'', JStr aws_region), (''State'', state)]))))))"

fun reservations_loop :: "string \<Rightarrow> json list \<Rightarrow> row list \<Rightarrow> error + row list" where
  "reservations_loop aws_region [] acc = Inr acc"
| "reservations_loop aws_region (reservation # rest) acc =
     bindE (getitem reservation ''Instances'') (\<lambda>insts.
     bindE (iter insts) (\<lambda>items.
     bindE (for_append (instance_record aws_region) items acc) (\<lambda>acc'.
       reservations_loop aws_region rest acc')))"

definition flatten_instances :: "string \<Rightarrow> json \<Rightarrow> error + table" where
  "flatten_instances aws_region instances =
     bindE (getitem instances ''Reservations'') (\<lambda>rs.
     bindE (iter rs) (\<lambda>reservations.
     bindE (reservations_loop aws_region reservations []) (\<lambda>instances_data.
       Inr (DataFrame instances_data))))"

definition list_ec2_instances ::
  "AWSInventory \<Rightarrow> provider \<Rightarrow> string \<Rightarrow> request list \<Rightarrow> (error + table) \<times> request list" where
  "list_ec2_instances self p aws_region log =
     (let ec2 = get_boto_client self ''ec2'' aws_region;
          (instances, log') =
            invoke p \<lparr>via = ec2, operation = ''describe_instances'', kwargs = []\<rparr> log
      in (bindE instances (flatten_instances aws_region), log'))"

subsection \<open>Volumes and snapshots\<close>

definition volume_record :: "string \<Rightarrow> json \<Rightarrow> error + row" where
  "volume_record aws_region volume =
     bindE (getitem volume ''VolumeId'') (\<lambda>vid.
     bindE (getitem volume ''Size'') (\<lambda>sz.
     bindE (getitem volume ''State'') (\<lambda>st.
       Inr [(''Volume ID'', vid), (''Size'', sz), (''State'', st),
            (''Region'', JStr aws_region)])))"

definition flatten_volumes :: "string \<Rightarrow> json \<Rightarrow> error + table" where
  "flatten_volumes aws_region volumes =
     bindE (getitem volumes ''Volumes'') (\<lambda>vs.
     bindE (iter vs) (\<lambda>items.
     bindE (for_append (volume_record aws_region) items []) (\<lambda>volumes_data.
       Inr (DataFrame volumes_data))))"

definition list_ec2_volumes ::
  "AWSInventory \<Rightarrow> provider \<Rightarrow> string \<Rightarrow> request list \<Rightarrow> (error + table) \<times> request list" where
  "list_ec2_volumes self p aws_region log =
     (let ec2 = get_boto_client self ''ec2'' aws_region;
          (volumes, log') =
            invoke p \<lparr>via = ec2, operation = ''describe_volumes'', kwargs = []\<rparr> log
      in (bindE volumes (flatten_volumes aws_region), log'))"

definition snapshot_record :: "string \<Rightarrow> json \<Rightarrow> error + row" where
  "snapshot_record aws_region snapshot =
     bindE (getitem snapshot ''SnapshotId'') (\<lambda>sid.
     bindE (getitem snapshot ''VolumeSize'') (\<lambda>sz.
     bindE (getitem snapshot ''State'') (\<lambda>st.
       Inr [(''Snapshot ID'', sid), (''Volume Size'', sz), (''State'', st),
            (''Region'', JStr aws_region)])))"

definition flatten_snapshots :: "string \<Rightarrow> json \<Rightarrow> error + table" where
  "flatten_snapshots aws_region snapshots =
     bindE (getitem snapshots ''Snapshots'') (\<lambda>ss.
     bindE (iter ss) (\<lambda>items.
     bindE (for_append (snapshot_record aws_region) items []) (\<lambda>snapshots_data.
       Inr (DataFrame snapshots_data))))"

definition list_ec2_snapshots ::
  "AWSInventory \<Rightarrow> provider \<Rightarrow> string \<Rightarrow> request list \<Rightarrow> (error + table) \<times> request list" where
  "list_ec2_snapshots self p aws_region log =
     (let ec2 = get_boto_client self ''ec2'' aws_region;
          (snapshots, log') =
            invoke p \<lparr>via = ec2, operation = ''describe_snapshots'',
                      kwargs = [(''OwnerIds'', JList [JStr ''self''])]\<rparr> log
      in (bindE snapshots (flatten_snapshots aws_region), log'))"

subsection \<open>Buckets, database instances and clusters\<close>

definition bucket_record :: "json \<Rightarrow> error + row" where
  "bucket_record bucket = bindE (getitem bucket ''Name'') (\<lambda>n. Inr [(''Bucket Name'', n)])"

definition flatten_buckets :: "json \<Rightarrow> error + table" where
  "flatten_buckets buckets =
     bindE (getitem buckets ''Buckets'') (\<lambda>bs.
     bindE (iter bs) (\<lambda>items.
     bindE (for_append bucket_record items []) (\<lambda>buckets_data.
       Inr (DataFrame buckets_data))))"

definition list_s3_buckets ::
  "AWSInventory \<Rightarrow> provider \<Rightarrow> request list \<Rightarrow> (error + table) \<times> request list" where
  "list_s3_buckets self p log =
     (let s3 = get_boto_client self ''s3'' ''us-east-1'';
          (buckets, log') =
            invoke p \<lparr>via = s3, operation = ''list_buckets'', kwargs = []\<rparr> log
      in (bindE buckets flatten_buckets, log'))"

definition db_instance_record :: "json \<Rightarrow> error + row" where
  "db_instance_record inst =
     bindE (getitem inst ''DBInstanceIdentifier'') (\<lambda>ident.
     bindE (getitem inst ''Engine'') (\<lambda>engine.
       Inr [(''DB Instance Identifier'', ident), (''DB Engine'', engine)]))"

definition flatten_db_instances :: "json \<Rightarrow> error + table" where
  "flatten_db_instances instances =
     bindE (getitem instances ''DBInstances'') (\<lambda>ds.
     bindE (iter ds) (\<lambda>items.
     bindE (for_append db_instance_record items []) (\<lambda>instances_data.
       Inr (DataFrame instances_data))))"

definition list_rds_instances ::
  "AWSInventory \<Rightarrow> provider \<Rightarrow> string \<Rightarrow> request list \<Rightarrow> (error + table) \<times> request list" where
  "list_rds_instances self p aws_region log =
     (let rds = get_boto_client self ''rds'' aws_region;
          (instances, log') =
            invoke p \<lparr>via = rds, operation = ''describe_db_instances'', kwargs = []\<rparr> log
      in (bindE instances flatten_db_instances, log'))"

definition cluster_record :: "json \<Rightarrow> error + row" where
  "cluster_record name = Inr [(''Cluster Name'', name)]"

definition flatten_clusters :: "json \<Rightarrow> error + table" where
  "flatten_clusters clusters =
     bindE (getitem clusters ''clusters'') (\<lambda>cs.
     bindE (iter cs) (\<lambda>items.
     bindE (for_append cluster_record items []) (\<lambda>clusters_data.
       Inr (DataFrame clusters_data))))"

definition list_eks_clusters ::
  "AWSInventory \<Rightarrow> provider \<Rightarrow> string \<Rightarrow> request list \<Rightarrow> (error + table) \<times> request list" where
  "list_eks_clusters self p aws_region log =
     (let eks = get_boto_client self ''eks'' aws_region;
          (clusters, log') =
            invoke p \<lparr>via = eks, operation = ''list_clusters'', kwargs = []\<rparr> log
      in (bindE clusters flatten_clusters, log'))"

section \<open>The configuration loader\<close>

text \<open>
  \<^verbatim>\<open>load_yaml\<close> opens the file and hands its text to the YAML parser. The parser is a
  library: it is a parameter here, mapping a document's text to the value it denotes or
  failing on a malformed document. The file system maps a path to the file's text.
\<close>

type_synonym yaml_parser = "string \<Rightarrow> error + json"
type_synonym file_system = "string \<Rightarrow> string option"

definition load_yaml :: "file_system \<Rightarrow> yaml_parser \<Rightarrow> string \<Rightarrow> error + json" where
  "load_yaml fs parse file_path =
     (case fs file_path of None \<Rightarrow> Inl FileNotFoundError | Some doc \<Rightarrow> parse doc)"

definition init :: "file_system \<Rightarrow> yaml_parser \<Rightarrow> string \<Rightarrow> error + AWSInventory" where
  "init fs parse aws_config_file =
     bindE (load_yaml fs parse aws_config_file) (\<lambda>aws_credentials.
     bindE (getitem aws_credentials ''AWS_ACCESS_KEY_ID'') (\<lambda>key_id.
     bindE (getitem aws_credentials ''AWS_SECRET_ACCESS_KEY'') (\<lambda>secret.
       Inr \<lparr>aws_access_key_id = key_id, aws_secret_access_key = secret\<rparr>)))"

section \<open>The report writer\<close>

text \<open>
  A worksheet is a grid of cells. \<^verbatim>\<open>df.to_excel(writer, sheet_name=name)\<close> with its
  defaults writes a header line (a blank cell over the index, then the column labels) and
  one line per row: the row's index, then its cells.
\<close>

record sheet =
  sheet_name :: string
  grid :: "cell list list"

definition sheet_of :: "string \<Rightarrow> table \<Rightarrow> sheet" where
  "sheet_of name df =
     \<lparr>sheet_name = name,
      grid = (None # map (\<lambda>c. Some (JStr c)) (columns df))
             # map (\<lambda>(i, r). Some (JInt (int i)) # r) (zip [0 ..< length (rows df)] (rows df))\<rparr>"

text \<open>
  The spreadsheet library decides which destinations can be opened and which sheets it
  accepts (name length, characters); both are parameters.
\<close>

record excel_backend =
  can_open :: "string \<Rightarrow> bool"
  accepts :: "string \<Rightarrow> table \<Rightarrow> bool"

datatype handle_state = Unopened | Opened | Closed

record excel_file =
  file_handle :: handle_state
  sheets :: "sheet list"

definition to_excel :: "excel_backend \<Rightarrow> table \<Rightarrow> excel_file \<Rightarrow> string \<Rightarrow> (error + unit) \<times> excel_file" where
  "to_excel xl df writer name =
     (if accepts xl name df
      then (Inr (), writer\<lparr>sheets := sheets writer @ [sheet_of name df]\<rparr>)
      else (Inl (ExcelError name), writer))"

text \<open>The loop over \<^verbatim>\<open>dataframe_dict.items()\<close>: the first sheet that fails ends it.\<close>

fun write_sheets ::
  "excel_backend \<Rightarrow> (string \<times> table) list \<Rightarrow> excel_file \<Rightarrow> (error + unit) \<times> excel_file" where
  "write_sheets xl [] writer = (Inr (), writer)"
| "write_sheets xl ((name, df) # rest) writer =
     (case to_excel xl df writer name of
        (Inl e, writer') \<Rightarrow> (Inl e, writer')
      | (Inr u, writer') \<Rightarrow> write_sheets xl rest writer')"

text \<open>
  \<^verbatim>\<open>with ExcelWriter(filename) as writer: body\<close>. When the writer cannot be constructed
  nothing was opened. Otherwise the body runs and the writer is closed on the way out,
  whether the body returned or raised; the body's exception is raised again.
\<close>

definition with_ExcelWriter ::
  "excel_backend \<Rightarrow> string \<Rightarrow> (excel_file \<Rightarrow> (error + unit) \<times> excel_file) \<Rightarrow> (error + unit) \<times> excel_file" where
  "with_ExcelWriter xl filename body =
     (if can_open xl filename
      then (let (res, writer) = body \<lparr>file_handle = Opened, sheets = []\<rparr>
            in (res, writer\<lparr>file_handle := Closed\<rparr>))
      else (Inl (ExcelError filename), \<lparr>file_handle = Unopened, sheets = []\<rparr>))"

definition save_to_excel ::
  "excel_backend \<Rightarrow> (string \<times> table) list \<Rightarrow> string \<Rightarrow> (error + unit) \<times> excel_file" where
  "save_to_excel xl dataframe_dict filename =
     with_ExcelWriter xl filename (write_sheets xl dataframe_dict)"

section \<open>The entry point\<close>

definition regions :: "string list" where
  "regions = [''us-east-1'', ''eu-west-1'', ''sa-east-1'']"

record accum =
  all_ec2_data :: table
  all_rds_data :: table
  all_eks_data :: table
  all_volumes_data :: table
  all_snapshots_data :: table

definition initial_accum :: accum where
  "initial_accum =
     \<lparr>all_ec2_data = empty_frame, all_rds_data = empty_frame, all_eks_data = empty_frame,
      all_volumes_data = empty_frame, all_snapshots_data = empty_frame\<rparr>"

text \<open>One pass of the loop over the regions; the cluster listing is commented out in the script.\<close>

definition region_step ::
  "AWSInventory \<Rightarrow> provider \<Rightarrow> string \<Rightarrow> accum \<Rightarrow> request list \<Rightarrow> (error + accum) \<times> request list" where
  "region_step inventory p region acc log =
     (case list_ec2_instances inventory p region log of
        (Inl e, log1) \<Rightarrow> (Inl e, log1)
      | (Inr df_ec2, log1) \<Rightarrow>
     (case list_rds_instances inventory p region log1 of
        (Inl e, log2) \<Rightarrow> (Inl e, log2)
      | (Inr df_rds, log2) \<Rightarrow>
     (case list_ec2_volumes inventory p region log2 of
        (Inl e, log3) \<Rightarrow> (Inl e, log3)
      | (Inr df_volumes, log3) \<Rightarrow>
     (case list_ec2_snapshots inventory p region log3 of
        (Inl e, log4) \<Rightarrow> (Inl e, log4)
      | (Inr df_snapshots, log4) \<Rightarrow>
          (Inr (acc\<lparr>all_ec2_data := concat_frames (all_ec2_data acc) df_ec2,
                    all_rds_data := concat_frames (all_rds_data acc) df_rds,
                    all_volumes_data := concat_frames (all_volumes_data acc) df_volumes,
                    all_snapshots_data := concat_frames (all_snapshots_data acc) df_snapshots\<rparr>),
           log4)))))"

fun region_loop ::
  "AWSInventory \<Rightarrow> provider \<Rightarrow> string list \<Rightarrow> accum \<Rightarrow> request list \<Rightarrow> (error + accum) \<times> request list" where
  "region_loop inventory p [] acc log = (Inr acc, log)"
| "region_loop inventory p (region # rest) acc log =
     (case region_step inventory p region acc log of
        (Inl e, log') \<Rightarrow> (Inl e, log')
      | (Inr acc', log') \<Rightarrow> region_loop inventory p rest acc' log')"

text \<open>The mapping from sheet name to table that the script assembles, in insertion order.\<close>

definition df_dict :: "accum \<Rightarrow> table \<Rightarrow> (string \<times> table) list" where
  "df_dict acc df_s3 =
     [(''EC2'', all_ec2_data acc),
      (''RDS'', all_rds_data acc),
      (''EC2-Volumes'', all_volumes_data acc),
      (''EC2-Snapshots'', all_snapshots_data acc),
      (''S3-Buckets'', df_s3)]"

text \<open>
  One run: its outcome, the provider calls it issued and the output file it left. The
  command line is \<^verbatim>\<open>sys.argv\<close>, the script's name first.
\<close>

record run =
  outcome :: "error + unit"
  calls :: "request list"
  report :: excel_file

definition no_report :: excel_file where
  "no_report = \<lparr>file_handle = Unopened, sheets = []\<rparr>"

definition main ::
  "string list \<Rightarrow> file_system \<Rightarrow> yaml_parser \<Rightarrow> provider \<Rightarrow> excel_backend \<Rightarrow> run" where
  "main argv fs parse p xl =
     (case argv of
        [] \<Rightarrow> \<lparr>outcome = Inl IndexError, calls = [], report = no_report\<rparr>
      | [script] \<Rightarrow> \<lparr>outcome = Inl IndexError, calls = [], report = no_report\<rparr>
      | script # output_file # others \<Rightarrow>
     (case init fs parse ''aws_credentials.yml'' of
        Inl e \<Rightarrow> \<lparr>outcome = Inl e, calls = [], report = no_report\<rparr>
      | Inr inventory \<Rightarrow>
     (case region_loop inventory p regions initial_accum [] of
        (Inl e, log) \<Rightarrow> \<lparr>outcome = Inl e, calls = log, report = no_report\<rparr>
      | (Inr acc, log) \<Rightarrow>
     (case list_s3_buckets inventory p log of
        (Inl e, log') \<Rightarrow> \<lparr>outcome = Inl e, calls = log', report = no_report\<rparr>
      | (Inr df_s3, log') \<Rightarrow>
          (let (res, file) = save_to_excel xl (df_dict acc df_s3) output_file
           in \<lparr>outcome = res, calls = log', report = file\<rparr>)))))"

section \<open>Well-formed tables and a test scenario\<close>

text \<open>Every row of a frame has one cell per column.\<close>

definition wf_table :: "table \<Rightarrow> bool" where
  "wf_table t = (\<forall>r \<in> set (rows t). length r = length (columns t))"

text \<open>
  A stubbed environment for running the script: a credentials file, a parser that knows
  the two documents of the stub file system, and a provider with two compute instances in
  \<^verbatim>\<open>us-east-1\<close> (one tagged \<^verbatim>\<open>Name=web-1\<close>, one with an empty tag list), one volume in
  \<^verbatim>\<open>eu-west-1\<close>, one snapshot in \<^verbatim>\<open>sa-east-1\<close>, no database and one bucket.
\<close>

definition scenario_doc :: string where
  "scenario_doc =
     ''AWS_ACCESS_KEY_ID: AKIA_TEST'' @ [CHR 0x0A] @
     ''AWS_SECRET_ACCESS_KEY: secret_test'' @ [CHR 0x0A]"

definition partial_doc :: string where
  "partial_doc = ''AWS_ACCESS_KEY_ID: AKIA_TEST'' @ [CHR 0x0A]"

definition scenario_fs :: file_system where
  "scenario_fs path =
     (if path = ''aws_credentials.yml'' then Some scenario_doc
      else if path = ''partial.yml'' then Some partial_doc
      else None)"

definition scenario_parse :: yaml_parser where
  "scenario_parse doc =
     (if doc = scenario_doc
      then Inr (JDict [(''AWS_ACCESS_KEY_ID'', JStr ''AKIA_TEST''),
                       (''AWS_SECRET_ACCESS_KEY'', JStr ''secret_test'')])
      else if doc = partial_doc
      then Inr (JDict [(''AWS_ACCESS_KEY_ID'', JStr ''AKIA_TEST'')])
      else Inl YAMLError)"

definition scenario_inventory :: AWSInventory where
  "scenario_inventory =
     \<lparr>aws_access_key_id = JStr ''AKIA_TEST'', aws_secret_access_key = JStr ''secret_test''\<rparr>"

definition web_instance :: json where
  "web_instance =
     JDict [(''InstanceId'', JStr ''i-01''), (''InstanceType'', JStr ''t3.micro''),
            (''PlatformDetails'', JStr ''Linux/UNIX''),
            (''State'', JDict [(''Code'', JInt 16), (''Name'', JStr ''running'')]),
            (''Tags'', JList [JDict [(''Key'', JStr ''env''), (''Value'', JStr ''prod'')],
                              JDict [(''Key'', JStr ''Name''), (''Value'', JStr ''web-1'')]])]"

definition untagged_instance :: json where
  "untagged_instance =
     JDict [(''InstanceId'', JStr ''i-02''), (''InstanceType'', JStr ''t3.small''),
            (''PlatformDetails'', JStr ''Windows''),
            (''State'', JDict [(''Code'', JInt 80), (''Name'', JStr ''stopped'')]),
            (''Tags'', JList [])]"

definition tagless_instance :: json where
  "tagless_instance =
     JDict [(''InstanceId'', JStr ''i-03''), (''InstanceType'', JStr ''t3.small''),
            (''PlatformDetails'', JStr ''Linux/UNIX''),
            (''State'', JDict [(''Code'', JInt 16), (''Name'', JStr ''running'')])]"

definition scenario_provider :: provider where
  "scenario_provider r =
     (if operation r = ''describe_instances'' then
        (if region_name (via r) = ''us-east-1''
         then Inr (JDict [(''Reservations'',
                JList [JDict [(''Instances'', JList [web_instance])],
                       JDict [(''Instances'', JList [untagged_instance])]])])
         else Inr (JDict [(''Reservations'', JList [])]))
      else if operation r = ''describe_volumes'' then
        (if region_name (via r) = ''eu-west-1''
         then Inr (JDict [(''Volumes'',
                JList [JDict [(''VolumeId'', JStr ''vol-01''), (''Size'', JInt 8),
                              (''State'', JStr ''in-use'')]])])
         else Inr (JDict [(''Volumes'', JList [])]))
      else if operation r = ''describe_snapshots'' then
        (if region_name (via r) = ''sa-east-1''
         then Inr (JDict [(''Snapshots'',
                JList [JDict [(''SnapshotId'', JStr ''snap-01''), (''VolumeSize'', JInt 8),
                              (''State'', JStr ''completed'')]])])
         else Inr (JDict [(''Snapshots'', JList [])]))
      else if operation r = ''describe_db_instances'' then
        Inr (JDict [(''DBInstances'', JList [])])
      else if operation r = ''list_buckets'' then
        Inr (JDict [(''Buckets'', JList [JDict [(''Name'', JStr ''logs-bucket'')]])])
      else if operation r = ''list_clusters'' then
        Inr (JDict [(''clusters'', JList [])])
      else Inl (ProviderError ''unknown operation''))"

text \<open>A spreadsheet library that opens every destination and takes names of up to 31 characters.\<close>

definition scenario_excel :: excel_backend where
  "scenario_excel = \<lparr>can_open = (\<lambda>f. True), accepts = (\<lambda>name df. length name \<le> 31)\<rparr>"

text \<open>One that fails on the sheet named \<^verbatim>\<open>RDS\<close>.\<close>

definition failing_excel :: excel_backend where
  "failing_excel = \<lparr>can_open = (\<lambda>f. True), accepts = (\<lambda>name df. name \<noteq> ''RDS'')\<rparr>"

text \<open>An instance whose tag list has entries, none of them keyed \<^verbatim>\<open>Name\<close>.\<close>

definition env_instance :: json where
  "env_instance =
     JDict [(''InstanceId'', JStr ''i-04''), (''InstanceType'', JStr ''t3.large''),
            (''PlatformDetails'', JStr ''Linux/UNIX''),
            (''State'', JDict [(''Code'', JInt 16), (''Name'', JStr ''running'')]),
            (''Tags'', JList [JDict [(''Key'', JStr ''env''), (''Value'', JStr ''prod'')],
                              JDict [(''Key'', JStr ''team''), (''Value'', JStr ''core'')]])]"

text \<open>The frames the stub provider's non-empty answers flatten to.\<close>

definition scenario_ec2_frame :: table where
  "scenario_ec2_frame =
     \<lparr>columns = [''Name'', ''Instance ID'', ''Type'', ''OS'', ''Region'', ''State''],
      rows = [[Some (JStr ''web-1''), Some (JStr ''i-01''), Some (JStr ''t3.micro''),
               Some (JStr ''Linux/UNIX''), Some (JStr ''us-east-1''), Some (JStr ''running'')],
              [Some (JStr []), Some (JStr ''i-02''), Some (JStr ''t3.small''),
               Some (JStr ''Windows''), Some (JStr ''us-east-1''), Some (JStr ''stopped'')]]\<rparr>"

definition scenario_volumes_frame :: table where
  "scenario_volumes_frame =
     \<lparr>columns = [''Volume ID'', ''Size'', ''State'', ''Region''],
      rows = [[Some (JStr ''vol-01''), Some (JInt 8), Some (JStr ''in-use''),
               Some (JStr ''eu-west-1'')]]\<rparr>"

definition scenario_snapshots_frame :: table where
  "scenario_snapshots_frame =
     \<lparr>columns = [''Snapshot ID'', ''Volume Size'', ''State'', ''Region''],
      rows = [[Some (JStr ''snap-01''), Some (JInt 8), Some (JStr ''completed''),
               Some (JStr ''sa-east-1'')]]\<rparr>"

text \<open>A volume frame of another region.\<close>

definition other_volumes_frame :: table where
  "other_volumes_frame =
     \<lparr>columns = [''Volume ID'', ''Size'', ''State'', ''Region''],
      rows = [[Some (JStr ''vol-02''), Some (JInt 16), Some (JStr ''available''),
               Some (JStr ''sa-east-1'')],
              [Some (JStr ''vol-03''), Some (JInt 32), Some (JStr ''in-use''),
               Some (JStr ''sa-east-1'')]]\<rparr>"

section \<open>Basic facts\<close>

lemma bindE_Inl [simp]: "bindE (Inl e) f = Inl e"
  by (simp add: bindE_def)

lemma bindE_Inr [simp]: "bindE (Inr x) f = f x"
  by (simp add: bindE_def)

lemma bindE_eq_Inr: "bindE m f = Inr y \<longleftrightarrow> (\<exists>x. m = Inr x \<and> f x = Inr y)"
  by (cases m) simp_all

lemma DataFrame_Nil [simp]: "DataFrame [] = empty_frame"
  by (simp add: DataFrame_def empty_frame_def)

lemma length_rows_DataFrame [simp]: "length (rows (DataFrame recs)) = length recs"
  by (simp add: DataFrame_def Let_def)

lemma set_index_union: "set (index_union cols ks) = set cols \<union> set ks"
  unfolding index_union_def
  by (induction ks arbitrary: cols) auto

lemma set_fold_index_union:
  "set (fold (\<lambda>r seen. index_union seen (map fst r)) recs acc)
     = set acc \<union> (\<Union>r \<in> set recs. fst ` set r)"
  by (induction recs arbitrary: acc) (auto simp: set_index_union)

lemma index_union_same: "set ks \<subseteq> set cols \<Longrightarrow> index_union cols ks = cols"
  unfolding index_union_def by (induction ks arbitrary: cols) auto

text \<open>A value a record holds under a key is the cell of its row under that column.\<close>

lemma cell_at_DataFrame:
  assumes "i < length recs" and "map_of (recs ! i) c = Some v"
  shows "cell_at (DataFrame recs) i c = Some (Some v)"
proof -
  let ?cols = "columns (DataFrame recs)"
  from assms(2) have "c \<in> fst ` set (recs ! i)"
    by (metis map_of_eq_None_iff option.distinct(1))
  with assms(1) have "c \<in> set ?cols"
    by (auto simp: DataFrame_def Let_def set_fold_index_union)
  moreover have "rows (DataFrame recs) ! i = map (map_of (recs ! i)) ?cols"
    using assms(1) by (simp add: DataFrame_def Let_def)
  ultimately show ?thesis
    using assms by (simp add: cell_at_def map_of_zip_map)
qed

text \<open>What a finished loop holds: the records it started with and records of its items.\<close>

lemma for_append_set:
  "for_append f xs acc = Inr rs \<Longrightarrow> r \<in> set rs \<Longrightarrow>
   r \<in> set acc \<or> (\<exists>x \<in> set xs. f x = Inr r)"
proof (induction xs arbitrary: acc)
  case Nil
  then show ?case by simp
next
  case (Cons x xs)
  from Cons.prems(1) obtain r0 where
    r0: "f x = Inr r0" and rest: "for_append f xs (acc @ [r0]) = Inr rs"
    by (auto simp: bindE_eq_Inr)
  from Cons.IH[OF rest Cons.prems(2)] r0 show ?case by auto
qed

lemma for_append_fails:
  "for_append f pre acc = Inr acc' \<Longrightarrow> f x = Inl e \<Longrightarrow>
   for_append f (pre @ x # post) acc = Inl e"
  by (induction pre arbitrary: acc) (auto simp: bindE_eq_Inr)

lemma reservations_loop_set:
  "reservations_loop region rs acc = Inr out \<Longrightarrow> r \<in> set out \<Longrightarrow>
   r \<in> set acc \<or> (\<exists>x. instance_record region x = Inr r)"
proof (induction rs arbitrary: acc)
  case Nil
  then show ?case by simp
next
  case (Cons res rs)
  from Cons.prems(1) obtain items acc' where
    a: "for_append (instance_record region) items acc = Inr acc'" and
    b: "reservations_loop region rs acc' = Inr out"
    by (auto simp: bindE_eq_Inr)
  from Cons.IH[OF b Cons.prems(2)] for_append_set[OF a] show ?case by blast
qed

lemma reservations_loop_no_items:
  "\<forall>res \<in> set rs. getitem res ''Instances'' = Inr (JList []) \<Longrightarrow>
   reservations_loop region rs acc = Inr acc"
  by (induction rs arbitrary: acc) simp_all

lemma reservations_loop_append:
  "reservations_loop region rpre acc = Inr acc1 \<Longrightarrow>
   reservations_loop region (rpre @ rest) acc = reservations_loop region rest acc1"
  by (induction rpre arbitrary: acc) (auto simp: bindE_eq_Inr)

text \<open>Unfolding the stub environment and the operations on it.\<close>

lemmas scenario_defs =
  main_def init_def load_yaml_def scenario_fs_def scenario_parse_def scenario_doc_def
  partial_doc_def scenario_provider_def scenario_excel_def failing_excel_def
  scenario_inventory_def regions_def region_step_def
  list_ec2_instances_def list_ec2_volumes_def list_ec2_snapshots_def list_rds_instances_def
  list_s3_buckets_def list_eks_clusters_def invoke_def get_boto_client_def
  flatten_instances_def flatten_volumes_def flatten_snapshots_def flatten_db_instances_def
  flatten_buckets_def flatten_clusters_def instance_record_def instance_name_def
  volume_record_def snapshot_record_def bucket_record_def db_instance_record_def
  cluster_record_def web_instance_def untagged_instance_def tagless_instance_def
  env_instance_def scenario_ec2_frame_def scenario_volumes_frame_def
  scenario_snapshots_frame_def other_volumes_frame_def DataFrame_def index_union_def concat_frames_def reindex_def
  initial_accum_def empty_frame_def df_dict_def save_to_excel_def with_ExcelWriter_def
  to_excel_def sheet_of_def cell_at_def wf_table_def no_report_def Let_def

section \<open>Empty provider responses\<close>

text \<open>
  Claim C1, as the spec words it: on a provider response with zero items the flattening
  operation of each kind returns a zero-row table that still carries the kind's fixed
  columns (Volume ID, Size, State, Region for volumes). The code builds the frame from the
  list of records alone, so on the empty volume listing the frame has no column at all: it
  is the empty frame, and it is not the zero-row frame with the four volume columns.
\<close>

theorem empty_volumes_frame_has_no_columns:
  "flatten_volumes ''us-east-1'' (JDict [(''Volumes'', JList [])])
     = Inr \<lparr>columns = [], rows = []\<rparr>
   \<and> flatten_volumes ''us-east-1'' (JDict [(''Volumes'', JList [])])
     \<noteq> Inr \<lparr>columns = [''Volume ID'', ''Size'', ''State'', ''Region''], rows = []\<rparr>"
  by (simp add: flatten_volumes_def empty_frame_def)

text \<open>
  Claim C1, amended: for each of the six resource kinds, a provider response with zero
  items (an empty item list; for compute instances also reservations that all hold an
  empty instance list) flattens without failure to the frame with zero rows and zero
  columns.
\<close>

theorem empty_response_gives_empty_frame:
  "(getitem r1 ''Reservations'' = Inr (JList rs) \<and>
      (\<forall>res \<in> set rs. getitem res ''Instances'' = Inr (JList [])) \<longrightarrow>
      flatten_instances region r1 = Inr \<lparr>columns = [], rows = []\<rparr>)
   \<and> (getitem r2 ''Volumes'' = Inr (JList []) \<longrightarrow>
      flatten_volumes region r2 = Inr \<lparr>columns = [], rows = []\<rparr>)
   \<and> (getitem r3 ''Snapshots'' = Inr (JList []) \<longrightarrow>
      flatten_snapshots region r3 = Inr \<lparr>columns = [], rows = []\<rparr>)
   \<and> (getitem r4 ''Buckets'' = Inr (JList []) \<longrightarrow>
      flatten_buckets r4 = Inr \<lparr>columns = [], rows = []\<rparr>)
   \<and> (getitem r5 ''DBInstances'' = Inr (JList []) \<longrightarrow>
      flatten_db_instances r5 = Inr \<lparr>columns = [], rows = []\<rparr>)
   \<and> (getitem r6 ''clusters'' = Inr (JList []) \<longrightarrow>
      flatten_clusters r6 = Inr \<lparr>columns = [], rows = []\<rparr>)"
  by (simp add: flatten_instances_def flatten_volumes_def flatten_snapshots_def
      flatten_buckets_def flatten_db_instances_def flatten_clusters_def
      reservations_loop_no_items empty_frame_def)

theorem empty_response_gives_empty_frame_witness:
  "flatten_instances ''us-east-1''
     (JDict [(''Reservations'', JList [JDict [(''Instances'', JList [])]])])
     = Inr \<lparr>columns = [], rows = []\<rparr>
   \<and> flatten_volumes ''us-east-1'' (JDict [(''Volumes'', JList [])])
     = Inr \<lparr>columns = [], rows = []\<rparr>
   \<and> flatten_snapshots ''us-east-1'' (JDict [(''Snapshots'', JList [])])
     = Inr \<lparr>columns = [], rows = []\<rparr>
   \<and> flatten_buckets (JDict [(''Buckets'', JList [])]) = Inr \<lparr>columns = [], rows = []\<rparr>
   \<and> flatten_db_instances (JDict [(''DBInstances'', JList [])])
     = Inr \<lparr>columns = [], rows = []\<rparr>
   \<and> flatten_clusters (JDict [(''clusters'', JList [])]) = Inr \<lparr>columns = [], rows = []\<rparr>"
  using empty_response_gives_empty_frame
    [of "JDict [(''Reservations'', JList [JDict [(''Instances'', JList [])]])]"
        "[JDict [(''Instances'', JList [])]]" "''us-east-1''"
        "JDict [(''Volumes'', JList [])]" "JDict [(''Snapshots'', JList [])]"
        "JDict [(''Buckets'', JList [])]" "JDict [(''DBInstances'', JList [])]"
        "JDict [(''clusters'', JList [])]"]
  by simp

section \<open>The name of a compute instance\<close>

lemma first_name_tag_no_Name:
  "\<forall>t \<in> set ts. \<exists>k. getitem t ''Key'' = Inr k \<and> k \<noteq> JStr ''Name'' \<Longrightarrow>
   first_name_tag ts = Inr (JStr [])"
  by (induction ts) auto

lemma instance_record_no_Tags:
  "map_of kvs ''Tags'' = None \<Longrightarrow> instance_record region (JDict kvs) = Inl (KeyError ''Tags'')"
  by (simp add: instance_record_def instance_name_def)

text \<open>
  Claim C3: for a compute-instance item whose tag list holds no tag keyed \<^verbatim>\<open>Name\<close>, the
  name expression yields the empty string and does not fail; every record the flattening
  produces for the item has the empty string under \<^verbatim>\<open>Name\<close>, and when the item's other
  fields are present the record is produced.
\<close>

theorem missing_name_tag_gives_empty_name:
  assumes "getitem inst ''Tags'' = Inr (JList ts)"
      and "\<forall>t \<in> set ts. \<exists>k. getitem t ''Key'' = Inr k \<and> k \<noteq> JStr ''Name''"
  shows "instance_name inst = Inr (JStr [])
       \<and> (\<forall>r. instance_record region inst = Inr r \<longrightarrow> map_of r ''Name'' = Some (JStr []))
       \<and> (\<forall>iid ty os st state.
            getitem inst ''InstanceId'' = Inr iid \<and> getitem inst ''InstanceType'' = Inr ty \<and>
            getitem inst ''PlatformDetails'' = Inr os \<and> getitem inst ''State'' = Inr st \<and>
            getitem st ''Name'' = Inr state \<longrightarrow>
            instance_record region inst =
              Inr [(''Name'', JStr []), (''Instance ID'', iid), (''Type'', ty), (''OS'', os),
                   (''Region'', JStr region), (''State'', state)])"
proof -
  have n: "instance_name inst = Inr (JStr [])"
    using assms by (simp add: instance_name_def first_name_tag_no_Name)
  show ?thesis
    using n by (auto simp: instance_record_def bindE_eq_Inr)
qed

theorem missing_name_tag_gives_empty_name_witness:
  "getitem env_instance ''Tags''
     = Inr (JList [JDict [(''Key'', JStr ''env''), (''Value'', JStr ''prod'')],
                   JDict [(''Key'', JStr ''team''), (''Value'', JStr ''core'')]])
   \<and> instance_name env_instance = Inr (JStr [])
   \<and> instance_record ''us-east-1'' env_instance
     = Inr [(''Name'', JStr []), (''Instance ID'', JStr ''i-04''), (''Type'', JStr ''t3.large''),
            (''OS'', JStr ''Linux/UNIX''), (''Region'', JStr ''us-east-1''),
            (''State'', JStr ''running'')]"
proof -
  have tags: "getitem env_instance ''Tags''
     = Inr (JList [JDict [(''Key'', JStr ''env''), (''Value'', JStr ''prod'')],
                   JDict [(''Key'', JStr ''team''), (''Value'', JStr ''core'')]])"
    by (simp add: env_instance_def)
  have keys: "\<forall>t \<in> set [JDict [(''Key'', JStr ''env''), (''Value'', JStr ''prod'')],
                          JDict [(''Key'', JStr ''team''), (''Value'', JStr ''core'')]].
              \<exists>k. getitem t ''Key'' = Inr k \<and> k \<noteq> JStr ''Name''"
    by simp
  have fields: "getitem env_instance ''InstanceId'' = Inr (JStr ''i-04'')
      \<and> getitem env_instance ''InstanceType'' = Inr (JStr ''t3.large'')
      \<and> getitem env_instance ''PlatformDetails'' = Inr (JStr ''Linux/UNIX'')
      \<and> getitem env_instance ''State''
          = Inr (JDict [(''Code'', JInt 16), (''Name'', JStr ''running'')])
      \<and> getitem (JDict [(''Code'', JInt 16), (''Name'', JStr ''running'')]) ''Name''
          = Inr (JStr ''running'')"
    by (simp add: env_instance_def)
  from missing_name_tag_gives_empty_name[OF tags keys, of "''us-east-1''"] fields tags
  show ?thesis by blast
qed

text \<open>
  Claim C9: a compute-instance item without a \<^verbatim>\<open>Tags\<close> field makes the flattening fail
  with the key-lookup error for \<^verbatim>\<open>Tags\<close>: the item's record is not produced, and the
  whole operation fails with that error once the loop reaches the item (the reservations
  and items before it having been flattened).
\<close>

theorem absent_tag_list_raises_key_error:
  assumes "map_of kvs ''Tags'' = None"
      and "getitem resp ''Reservations'' = Inr (JList (rpre @ res # rpost))"
      and "reservations_loop region rpre [] = Inr acc1"
      and "getitem res ''Instances'' = Inr (JList (pre @ JDict kvs # post))"
      and "for_append (instance_record region) pre acc1 = Inr acc2"
  shows "instance_record region (JDict kvs) = Inl (KeyError ''Tags'')
       \<and> flatten_instances region resp = Inl (KeyError ''Tags'')"
proof -
  have a: "instance_record region (JDict kvs) = Inl (KeyError ''Tags'')"
    using assms(1) by (rule instance_record_no_Tags)
  have "for_append (instance_record region) (pre @ JDict kvs # post) acc1
          = Inl (KeyError ''Tags'')"
    using assms(5) a by (rule for_append_fails)
  then have "reservations_loop region (res # rpost) acc1 = Inl (KeyError ''Tags'')"
    using assms(4) by simp
  then have "reservations_loop region (rpre @ res # rpost) [] = Inl (KeyError ''Tags'')"
    using reservations_loop_append[OF assms(3)] by simp
  then have "flatten_instances region resp = Inl (KeyError ''Tags'')"
    using assms(2) by (simp add: flatten_instances_def)
  with a show ?thesis by simp
qed

theorem absent_tag_list_raises_key_error_witness:
  "map_of [(''InstanceId'', JStr ''i-03''), (''InstanceType'', JStr ''t3.small''),
           (''PlatformDetails'', JStr ''Linux/UNIX''),
           (''State'', JDict [(''Code'', JInt 16), (''Name'', JStr ''running'')])] ''Tags'' = None
   \<and> instance_record ''us-east-1'' tagless_instance = Inl (KeyError ''Tags'')
   \<and> flatten_instances ''us-east-1''
       (JDict [(''Reservations'',
          JList [JDict [(''Instances'', JList [web_instance])],
                 JDict [(''Instances'', JList [untagged_instance, tagless_instance, web_instance])],
                 JDict [(''Instances'', JList [web_instance])]])])
     = Inl (KeyError ''Tags'')"
proof -
  let ?kvs = "[(''InstanceId'', JStr ''i-03''), (''InstanceType'', JStr ''t3.small''),
               (''PlatformDetails'', JStr ''Linux/UNIX''),
               (''State'', JDict [(''Code'', JInt 16), (''Name'', JStr ''running'')])]"
  let ?res = "JDict [(''Instances'', JList [untagged_instance, tagless_instance, web_instance])]"
  let ?resp = "JDict [(''Reservations'',
          JList [JDict [(''Instances'', JList [web_instance])], ?res,
                 JDict [(''Instances'', JList [web_instance])]])]"
  let ?web = "[(''Name'', JStr ''web-1''), (''Instance ID'', JStr ''i-01''),
               (''Type'', JStr ''t3.micro''), (''OS'', JStr ''Linux/UNIX''),
               (''Region'', JStr ''us-east-1''), (''State'', JStr ''running'')]"
  let ?untagged = "[(''Name'', JStr []), (''Instance ID'', JStr ''i-02''),
               (''Type'', JStr ''t3.small''), (''OS'', JStr ''Windows''),
               (''Region'', JStr ''us-east-1''), (''State'', JStr ''stopped'')]"
  have t: "tagless_instance = JDict ?kvs"
    by (simp add: tagless_instance_def)
  have h1: "map_of ?kvs ''Tags'' = None"
    by simp
  have h2: "getitem ?resp ''Reservations''
      = Inr (JList ([JDict [(''Instances'', JList [web_instance])]] @ ?res
                     # [JDict [(''Instances'', JList [web_instance])]]))"
    by simp
  have h3: "reservations_loop ''us-east-1'' [JDict [(''Instances'', JList [web_instance])]] []
      = Inr [?web]"
    by (simp add: instance_record_def instance_name_def web_instance_def)
  have h4: "getitem ?res ''Instances'' = Inr (JList ([untagged_instance] @ JDict ?kvs # [web_instance]))"
    by (simp add: t)
  have h5: "for_append (instance_record ''us-east-1'') [untagged_instance] [?web]
      = Inr [?web, ?untagged]"
    by (simp add: instance_record_def instance_name_def untagged_instance_def)
  from absent_tag_list_raises_key_error[OF h1 h2 h3 h4 h5] h1 show ?thesis
    by (simp add: t)
qed

section \<open>The configuration\<close>



text \<open>
  Claim C6: when the configuration document denotes a mapping that lacks at least one of
  the two required keys, constructing the collector from it fails with the key-lookup
  error for the first required key that is absent; no collector with a missing or
  defaulted credential is returned.
\<close>

theorem missing_key_raises_key_error:
  assumes "fs path = Some doc" and "parse doc = Inr (JDict kvs)"
      and "map_of kvs ''AWS_ACCESS_KEY_ID'' = None \<or> map_of kvs ''AWS_SECRET_ACCESS_KEY'' = None"
  shows "init fs parse path =
           Inl (KeyError (if map_of kvs ''AWS_ACCESS_KEY_ID'' = None
                          then ''AWS_ACCESS_KEY_ID'' else ''AWS_SECRET_ACCESS_KEY''))"
  using assms by (auto simp: init_def load_yaml_def)

theorem missing_key_raises_key_error_witness:
  "scenario_fs ''partial.yml'' = Some partial_doc
   \<and> scenario_parse partial_doc = Inr (JDict [(''AWS_ACCESS_KEY_ID'', JStr ''AKIA_TEST'')])
   \<and> init scenario_fs scenario_parse ''partial.yml'' = Inl (KeyError ''AWS_SECRET_ACCESS_KEY'')"
proof -
  have h1: "scenario_fs ''partial.yml'' = Some partial_doc"
    by (simp add: scenario_fs_def)
  have h2: "scenario_parse partial_doc = Inr (JDict [(''AWS_ACCESS_KEY_ID'', JStr ''AKIA_TEST'')])"
    by (simp add: scenario_parse_def scenario_doc_def partial_doc_def)
  have h3: "map_of [(''AWS_ACCESS_KEY_ID'', JStr ''AKIA_TEST'')] ''AWS_ACCESS_KEY_ID'' = None
      \<or> map_of [(''AWS_ACCESS_KEY_ID'', JStr ''AKIA_TEST'')] ''AWS_SECRET_ACCESS_KEY'' = None"
    by simp
  from missing_key_raises_key_error
         [where fs = scenario_fs and parse = scenario_parse and path = "''partial.yml''"
            and doc = partial_doc, OF h1 h2 h3] h1 h2
  show ?thesis by simp
qed

text \<open>
  A document that denotes no mapping (an empty file denotes \<^verbatim>\<open>None\<close>, a sequence denotes a
  list) is no key-value document; the first subscript on it raises a type error.
\<close>

lemma init_non_mapping:
  assumes "fs path = Some doc" and "parse doc = Inr v" and "\<forall>kvs. v \<noteq> JDict kvs"
  shows "init fs parse path = Inl TypeError"
  using assms by (cases v) (simp_all add: init_def load_yaml_def)

section \<open>The calls issued to the provider\<close>

text \<open>
  Claim C7: in every region the snapshot listing issues exactly one call, the snapshot
  enumeration with the owner filter set to the caller's own account
  (\<^verbatim>\<open>OwnerIds=['self']\<close>); each of the other five listings issues exactly one call with no
  argument at all.
\<close>

theorem snapshot_call_is_scoped_to_self:
  "snd (list_ec2_snapshots self p region log) =
     log @ [\<lparr>via = get_boto_client self ''ec2'' region, operation = ''describe_snapshots'',
             kwargs = [(''OwnerIds'', JList [JStr ''self''])]\<rparr>]
   \<and> snd (list_ec2_instances self p region log) =
     log @ [\<lparr>via = get_boto_client self ''ec2'' region, operation = ''describe_instances'',
             kwargs = []\<rparr>]
   \<and> snd (list_ec2_volumes self p region log) =
     log @ [\<lparr>via = get_boto_client self ''ec2'' region, operation = ''describe_volumes'',
             kwargs = []\<rparr>]
   \<and> snd (list_s3_buckets self p log) =
     log @ [\<lparr>via = get_boto_client self ''s3'' ''us-east-1'', operation = ''list_buckets'',
             kwargs = []\<rparr>]
   \<and> snd (list_rds_instances self p region log) =
     log @ [\<lparr>via = get_boto_client self ''rds'' region, operation = ''describe_db_instances'',
             kwargs = []\<rparr>]
   \<and> snd (list_eks_clusters self p region log) =
     log @ [\<lparr>via = get_boto_client self ''eks'' region, operation = ''list_clusters'',
             kwargs = []\<rparr>]"
  by (simp add: list_ec2_snapshots_def list_ec2_instances_def list_ec2_volumes_def
      list_s3_buckets_def list_rds_instances_def list_eks_clusters_def invoke_def Let_def)

section \<open>The Region column\<close>

lemma instance_record_Region:
  "instance_record region x = Inr r \<Longrightarrow> map_of r ''Region'' = Some (JStr region)"
  by (auto simp: instance_record_def bindE_eq_Inr)

lemma volume_record_Region:
  "volume_record region x = Inr r \<Longrightarrow> map_of r ''Region'' = Some (JStr region)"
  by (auto simp: volume_record_def bindE_eq_Inr)

lemma snapshot_record_Region:
  "snapshot_record region x = Inr r \<Longrightarrow> map_of r ''Region'' = Some (JStr region)"
  by (auto simp: snapshot_record_def bindE_eq_Inr)

lemma Region_cells:
  assumes "\<forall>r \<in> set recs. map_of r ''Region'' = Some (JStr region)"
      and "i < length (rows (DataFrame recs))"
  shows "cell_at (DataFrame recs) i ''Region'' = Some (Some (JStr region))"
  using assms by (intro cell_at_DataFrame) auto

lemma flatten_instances_Region:
  assumes "flatten_instances region resp = Inr t" and "i < length (rows t)"
  shows "cell_at t i ''Region'' = Some (Some (JStr region))"
proof -
  from assms(1) obtain rs recs where
    loop: "reservations_loop region rs [] = Inr recs" and t: "t = DataFrame recs"
    by (auto simp: flatten_instances_def bindE_eq_Inr)
  have "\<forall>r \<in> set recs. map_of r ''Region'' = Some (JStr region)"
    using reservations_loop_set[OF loop] instance_record_Region by fastforce
  from this assms(2) show ?thesis unfolding t by (rule Region_cells)
qed

lemma flatten_volumes_Region:
  assumes "flatten_volumes region resp = Inr t" and "i < length (rows t)"
  shows "cell_at t i ''Region'' = Some (Some (JStr region))"
proof -
  from assms(1) obtain xs recs where
    loop: "for_append (volume_record region) xs [] = Inr recs" and t: "t = DataFrame recs"
    by (auto simp: flatten_volumes_def bindE_eq_Inr)
  have "\<forall>r \<in> set recs. map_of r ''Region'' = Some (JStr region)"
    using for_append_set[OF loop] volume_record_Region by fastforce
  from this assms(2) show ?thesis unfolding t by (rule Region_cells)
qed

lemma flatten_snapshots_Region:
  assumes "flatten_snapshots region resp = Inr t" and "i < length (rows t)"
  shows "cell_at t i ''Region'' = Some (Some (JStr region))"
proof -
  from assms(1) obtain xs recs where
    loop: "for_append (snapshot_record region) xs [] = Inr recs" and t: "t = DataFrame recs"
    by (auto simp: flatten_snapshots_def bindE_eq_Inr)
  have "\<forall>r \<in> set recs. map_of r ''Region'' = Some (JStr region)"
    using for_append_set[OF loop] snapshot_record_Region by fastforce
  from this assms(2) show ?thesis unfolding t by (rule Region_cells)
qed

text \<open>
  Claim C10: whatever the provider answers, every row of the table returned by the
  per-region listing of compute instances, of volumes and of snapshots holds, under the
  column \<^verbatim>\<open>Region\<close>, the region argument the operation was called with.
\<close>

theorem region_cell_is_region_argument:
  "(fst (list_ec2_instances self p region log) = Inr t1 \<and> i1 < length (rows t1) \<longrightarrow>
      cell_at t1 i1 ''Region'' = Some (Some (JStr region)))
   \<and> (fst (list_ec2_volumes self p region log) = Inr t2 \<and> i2 < length (rows t2) \<longrightarrow>
      cell_at t2 i2 ''Region'' = Some (Some (JStr region)))
   \<and> (fst (list_ec2_snapshots self p region log) = Inr t3 \<and> i3 < length (rows t3) \<longrightarrow>
      cell_at t3 i3 ''Region'' = Some (Some (JStr region)))"
proof -
  have a: "cell_at t i ''Region'' = Some (Some (JStr region))"
    if "fst (list_ec2_instances self p region log) = Inr t" and "i < length (rows t)" for t i
  proof -
    from that(1) obtain resp where "flatten_instances region resp = Inr t"
      by (auto simp: list_ec2_instances_def invoke_def Let_def bindE_eq_Inr)
    from this that(2) show ?thesis by (rule flatten_instances_Region)
  qed
  have b: "cell_at t i ''Region'' = Some (Some (JStr region))"
    if "fst (list_ec2_volumes self p region log) = Inr t" and "i < length (rows t)" for t i
  proof -
    from that(1) obtain resp where "flatten_volumes region resp = Inr t"
      by (auto simp: list_ec2_volumes_def invoke_def Let_def bindE_eq_Inr)
    from this that(2) show ?thesis by (rule flatten_volumes_Region)
  qed
  have c: "cell_at t i ''Region'' = Some (Some (JStr region))"
    if "fst (list_ec2_snapshots self p region log) = Inr t" and "i < length (rows t)" for t i
  proof -
    from that(1) obtain resp where "flatten_snapshots region resp = Inr t"
      by (auto simp: list_ec2_snapshots_def invoke_def Let_def bindE_eq_Inr)
    from this that(2) show ?thesis by (rule flatten_snapshots_Region)
  qed
  from a b c show ?thesis by blast
qed

lemma scenario_instances:
  "fst (list_ec2_instances scenario_inventory scenario_provider ''us-east-1'' [])
     = Inr scenario_ec2_frame"
  by (simp add: scenario_defs)

lemma scenario_volumes:
  "fst (list_ec2_volumes scenario_inventory scenario_provider ''eu-west-1'' [])
     = Inr scenario_volumes_frame"
  by (simp add: scenario_defs)

lemma scenario_snapshots:
  "fst (list_ec2_snapshots scenario_inventory scenario_provider ''sa-east-1'' [])
     = Inr scenario_snapshots_frame"
  by (simp add: scenario_defs)

theorem region_cell_is_region_argument_witness:
  "fst (list_ec2_instances scenario_inventory scenario_provider ''us-east-1'' [])
     = Inr scenario_ec2_frame
   \<and> 1 < length (rows scenario_ec2_frame)
   \<and> cell_at scenario_ec2_frame 1 ''Region'' = Some (Some (JStr ''us-east-1''))
   \<and> fst (list_ec2_volumes scenario_inventory scenario_provider ''eu-west-1'' [])
     = Inr scenario_volumes_frame
   \<and> 0 < length (rows scenario_volumes_frame)
   \<and> cell_at scenario_volumes_frame 0 ''Region'' = Some (Some (JStr ''eu-west-1''))
   \<and> fst (list_ec2_snapshots scenario_inventory scenario_provider ''sa-east-1'' [])
     = Inr scenario_snapshots_frame
   \<and> 0 < length (rows scenario_snapshots_frame)
   \<and> cell_at scenario_snapshots_frame 0 ''Region'' = Some (Some (JStr ''sa-east-1''))"
proof -
  have l1: "1 < length (rows scenario_ec2_frame)"
    by (simp add: scenario_ec2_frame_def)
  have l2: "0 < length (rows scenario_volumes_frame)"
    by (simp add: scenario_volumes_frame_def)
  have l3: "0 < length (rows scenario_snapshots_frame)"
    by (simp add: scenario_snapshots_frame_def)
  from region_cell_is_region_argument
         [of scenario_inventory scenario_provider "''us-east-1''" "[]" scenario_ec2_frame 1]
       scenario_instances l1
  have c1: "cell_at scenario_ec2_frame 1 ''Region'' = Some (Some (JStr ''us-east-1''))"
    by blast
  from region_cell_is_region_argument
         [where self = scenario_inventory and p = scenario_provider and region = "''eu-west-1''"
            and log = "[]" and ?t2.0 = scenario_volumes_frame and ?i2.0 = 0]
       scenario_volumes l2
  have c2: "cell_at scenario_volumes_frame 0 ''Region'' = Some (Some (JStr ''eu-west-1''))"
    by blast
  from region_cell_is_region_argument
         [where self = scenario_inventory and p = scenario_provider and region = "''sa-east-1''"
            and log = "[]" and ?t3.0 = scenario_snapshots_frame and ?i3.0 = 0]
       scenario_snapshots l3
  have c3: "cell_at scenario_snapshots_frame 0 ''Region'' = Some (Some (JStr ''sa-east-1''))"
    by blast
  from scenario_instances l1 c1 scenario_volumes l2 c2 scenario_snapshots l3 c3
  show ?thesis by blast
qed

section \<open>The report writer closes its file\<close>



section \<open>Concatenating per-region tables\<close>

lemma wf_DataFrame: "wf_table (DataFrame recs)"
  by (simp add: wf_table_def DataFrame_def Let_def)

lemma wf_concat_frames: "wf_table (concat_frames a b)"
  by (auto simp: wf_table_def concat_frames_def Let_def reindex_def)

lemma wf_empty_frame: "wf_table empty_frame"
  by (simp add: wf_table_def empty_frame_def)

lemma cell_reindex:
  assumes "c \<in> set old" and "length r = length old" and "c \<in> set new"
  shows "map_of (zip new (reindex old new r)) c = map_of (zip old r) c"
proof -
  from assms(1,2) obtain v where v: "map_of (zip old r) c = Some v"
    by (metis map_of_zip_is_Some)
  have "map_of (zip new (reindex old new r)) c
        = Some (case map_of (zip old r) c of None \<Rightarrow> None | Some v \<Rightarrow> v)"
    using assms(3) unfolding reindex_def by (simp add: map_of_zip_map)
  with v show ?thesis by simp
qed

lemma length_rows_concat:
  "length (rows (concat_frames a b)) = length (rows a) + length (rows b)"
  by (simp add: concat_frames_def Let_def)

lemma columns_concat: "columns (concat_frames a b) = index_union (columns a) (columns b)"
  by (simp add: concat_frames_def Let_def)

lemma cell_concat_left:
  assumes "wf_table a" and "i < length (rows a)" and "c \<in> set (columns a)"
  shows "cell_at (concat_frames a b) i c = cell_at a i c"
proof -
  let ?cols = "index_union (columns a) (columns b)"
  have len: "length (rows a ! i) = length (columns a)"
    using assms(1,2) by (simp add: wf_table_def)
  have c: "c \<in> set ?cols" using assms(3) by (simp add: set_index_union)
  have "rows (concat_frames a b) ! i = reindex (columns a) ?cols (rows a ! i)"
    using assms(2) by (simp add: concat_frames_def Let_def nth_append)
  then show ?thesis
    using assms(2) cell_reindex[OF assms(3) len c]
    by (simp add: cell_at_def length_rows_concat columns_concat)
qed

lemma cell_concat_right:
  assumes "wf_table b" and "j < length (rows b)" and "c \<in> set (columns b)"
  shows "cell_at (concat_frames a b) (length (rows a) + j) c = cell_at b j c"
proof -
  let ?cols = "index_union (columns a) (columns b)"
  have len: "length (rows b ! j) = length (columns b)"
    using assms(1,2) by (simp add: wf_table_def)
  have c: "c \<in> set ?cols" using assms(3) by (simp add: set_index_union)
  have "rows (concat_frames a b) ! (length (rows a) + j) = reindex (columns b) ?cols (rows b ! j)"
    using assms(2) by (simp add: concat_frames_def Let_def nth_append)
  then show ?thesis
    using assms(2) cell_reindex[OF assms(3) len c]
    by (simp add: cell_at_def length_rows_concat columns_concat)
qed

lemma reindex_same:
  assumes "distinct cols" and "length r = length cols"
  shows "reindex cols cols r = r"
proof (rule nth_equalityI)
  show "length (reindex cols cols r) = length r"
    using assms(2) by (simp add: reindex_def)
next
  fix i assume "i < length (reindex cols cols r)"
  then have i: "i < length cols" by (simp add: reindex_def)
  have "map_of (zip cols r) (cols ! i) = Some (r ! i)"
    using assms i by (simp add: map_of_zip_nth)
  then show "reindex cols cols r ! i = r ! i"
    using i by (simp add: reindex_def)
qed

lemma concat_same_columns:
  assumes "wf_table a" and "wf_table b" and "columns b = columns a" and "distinct (columns a)"
  shows "concat_frames a b = \<lparr>columns = columns a, rows = rows a @ rows b\<rparr>"
proof -
  have "map (reindex (columns a) (columns a)) (rows a) = rows a"
    using assms(1,4) by (simp add: wf_table_def reindex_same map_idI)
  moreover have "map (reindex (columns a) (columns a)) (rows b) = rows b"
    using assms(2,3,4) by (simp add: wf_table_def reindex_same map_idI)
  ultimately show ?thesis
    using assms(3) by (simp add: concat_frames_def Let_def index_union_same)
qed

text \<open>
  Claim C4: concatenating two per-region tables \<open>a\<close> and \<open>b\<close> gives a table whose row count
  is the sum of the two row counts; row \<open>i\<close> of \<open>a\<close> is row \<open>i\<close> of the result and row \<open>j\<close>
  of \<open>b\<close> is row \<open>length a + j\<close> of the result, cell by cell under the input's own columns,
  so every row of \<open>a\<close> precedes every row of \<open>b\<close> and each input keeps its order. When the
  two tables have the same columns the rows of the result are the rows of \<open>a\<close> followed by
  the rows of \<open>b\<close>, unchanged.
\<close>

theorem concat_keeps_rows_in_order:
  assumes "wf_table a" and "wf_table b"
  shows "length (rows (concat_frames a b)) = length (rows a) + length (rows b)
       \<and> (\<forall>i c. i < length (rows a) \<and> c \<in> set (columns a) \<longrightarrow>
             cell_at (concat_frames a b) i c = cell_at a i c)
       \<and> (\<forall>j c. j < length (rows b) \<and> c \<in> set (columns b) \<longrightarrow>
             cell_at (concat_frames a b) (length (rows a) + j) c = cell_at b j c)
       \<and> (columns b = columns a \<and> distinct (columns a) \<longrightarrow>
             rows (concat_frames a b) = rows a @ rows b)"
  using assms
  by (simp add: length_rows_concat cell_concat_left cell_concat_right concat_same_columns)

theorem concat_keeps_rows_in_order_witness:
  "wf_table scenario_volumes_frame \<and> wf_table other_volumes_frame
   \<and> length (rows (concat_frames scenario_volumes_frame other_volumes_frame)) = 1 + 2
   \<and> cell_at (concat_frames scenario_volumes_frame other_volumes_frame) 0 ''Volume ID''
       = Some (Some (JStr ''vol-01''))
   \<and> cell_at (concat_frames scenario_volumes_frame other_volumes_frame) 2 ''Volume ID''
       = Some (Some (JStr ''vol-03''))
   \<and> rows (concat_frames scenario_volumes_frame other_volumes_frame)
       = rows scenario_volumes_frame @ rows other_volumes_frame"
proof -
  have wa: "wf_table scenario_volumes_frame"
    by (simp add: wf_table_def scenario_volumes_frame_def)
  have wb: "wf_table other_volumes_frame"
    by (simp add: wf_table_def other_volumes_frame_def)
  have la: "length (rows scenario_volumes_frame) = 1"
    by (simp add: scenario_volumes_frame_def)
  have lb: "length (rows other_volumes_frame) = 2"
    by (simp add: other_volumes_frame_def)
  have ca: "''Volume ID'' \<in> set (columns scenario_volumes_frame)"
    by (simp add: scenario_volumes_frame_def)
  have cb: "''Volume ID'' \<in> set (columns other_volumes_frame)"
    by (simp add: other_volumes_frame_def)
  have same: "columns other_volumes_frame = columns scenario_volumes_frame
              \<and> distinct (columns scenario_volumes_frame)"
    by (simp add: scenario_volumes_frame_def other_volumes_frame_def)
  have va: "cell_at scenario_volumes_frame 0 ''Volume ID'' = Some (Some (JStr ''vol-01''))"
    by (simp add: cell_at_def scenario_volumes_frame_def)
  have vb: "cell_at other_volumes_frame 1 ''Volume ID'' = Some (Some (JStr ''vol-03''))"
    by (simp add: cell_at_def other_volumes_frame_def)
  note both = concat_keeps_rows_in_order[OF wa wb]
  have n: "length (rows (concat_frames scenario_volumes_frame other_volumes_frame)) = 1 + 2"
    using both la lb by simp
  have left: "cell_at (concat_frames scenario_volumes_frame other_volumes_frame) i c
                = cell_at scenario_volumes_frame i c"
    if "i < length (rows scenario_volumes_frame)" and "c \<in> set (columns scenario_volumes_frame)"
    for i c
    using both that by blast
  have right: "cell_at (concat_frames scenario_volumes_frame other_volumes_frame)
                 (length (rows scenario_volumes_frame) + j) c
                = cell_at other_volumes_frame j c"
    if "j < length (rows other_volumes_frame)" and "c \<in> set (columns other_volumes_frame)"
    for j c
    using both that by blast
  have l: "cell_at (concat_frames scenario_volumes_frame other_volumes_frame) 0 ''Volume ID''
       = Some (Some (JStr ''vol-01''))"
    using left[of 0 "''Volume ID''"] la ca va by simp
  have "1 < length (rows other_volumes_frame)"
    using lb by simp
  from right[OF this cb] have
    "cell_at (concat_frames scenario_volumes_frame other_volumes_frame) (1 + 1) ''Volume ID''
       = cell_at other_volumes_frame 1 ''Volume ID''"
    unfolding la .
  then have r: "cell_at (concat_frames scenario_volumes_frame other_volumes_frame) 2 ''Volume ID''
       = Some (Some (JStr ''vol-03''))"
    using vb by (simp add: numeral_2_eq_2)
  have e: "rows (concat_frames scenario_volumes_frame other_volumes_frame)
       = rows scenario_volumes_frame @ rows other_volumes_frame"
    using both same by blast
  from wa wb n l r e show ?thesis by blast
qed

section \<open>The sheets of the report\<close>









end
